theory Spec2Isabelle
  imports Complex_Main
begin

section \<open>Python values and errors\<close>

text \<open>
  Strings are lists of \<^typ>\<open>char\<close>, each character read as a code point below 256.
  On that range the whitespace of \<open>str.strip\<close> and \<open>str.split\<close> is the twelve characters
  of \<open>whitespace\<close>, and the only decimal digits are \<open>0\<close> to \<open>9\<close>.
\<close>

datatype integrity = UniqueViolation | NotNullViolation | ForeignKeyViolation | CheckViolation

datatype db_error = IntegrityError integrity | OperationalError | InterfaceError

datatype py_error =
  IndexError | ValueError | TypeError | AttributeError | OverflowError | DBError db_error

text \<open>
  A decoded JSON document, which is also the shape of the Python values the driver handles:
  \<open>None\<close>, booleans, integers, strings, lists and dictionaries (in insertion order).
  Numbers with a fractional part are outside the model.
\<close>

datatype json =
    JNull
  | JBool bool
  | JNum int
  | JStr string
  | JArr "json list"
  | JObj "(string \<times> json) list"

subsection \<open>String builtins\<close>

definition whitespace :: "char list" where
  "whitespace = [CHR 0x09, CHR 0x0A, CHR 0x0B, CHR 0x0C, CHR 0x0D, CHR 0x1C, CHR 0x1D,
     CHR 0x1E, CHR 0x1F, CHR 0x20, CHR 0x85, CHR 0xA0]"

definition is_space :: "char \<Rightarrow> bool" where
  "is_space c = (c \<in> set whitespace)"

definition str_strip :: "string \<Rightarrow> string" where
  "str_strip s = rev (dropWhile is_space (rev (dropWhile is_space s)))"

definition str_rstrip_chars :: "char \<Rightarrow> string \<Rightarrow> string" where
  \<comment> \<open>\<open>s.rstrip(c)\<close> for a one-character argument: every trailing \<open>c\<close> goes\<close>
  "str_rstrip_chars c s = rev (dropWhile (\<lambda>x. x = c) (rev s))"

definition str_endswith :: "string \<Rightarrow> char \<Rightarrow> bool" where
  "str_endswith s c = (s \<noteq> [] \<and> last s = c)"

fun str_split :: "char \<Rightarrow> string \<Rightarrow> string list" where
  \<comment> \<open>\<open>s.split(c)\<close>: never empty, \<open>''''.split(c) = ['''']\<close>\<close>
  "str_split c [] = [[]]"
| "str_split c (x # xs) =
     (if x = c then [] # str_split c xs
      else (case str_split c xs of [] \<Rightarrow> [[x]] | w # ws \<Rightarrow> (x # w) # ws))"

definition after_last :: "char \<Rightarrow> string \<Rightarrow> string" where
  "after_last c s = rev (takeWhile (\<lambda>x. x \<noteq> c) (rev s))"

definition before_last :: "char \<Rightarrow> string \<Rightarrow> string" where
  "before_last c s = rev (tl (dropWhile (\<lambda>x. x \<noteq> c) (rev s)))"

definition str_rsplit1 :: "char \<Rightarrow> string \<Rightarrow> string list" where
  \<comment> \<open>\<open>s.rsplit(c, 1)\<close>: one split at the last \<open>c\<close>, or the whole string alone\<close>
  "str_rsplit1 c s = (if c \<in> set s then [before_last c s, after_last c s] else [s])"

fun is_prefix :: "string \<Rightarrow> string \<Rightarrow> bool" where
  "is_prefix [] s = True"
| "is_prefix (p # ps) [] = False"
| "is_prefix (p # ps) (x # xs) = (p = x \<and> is_prefix ps xs)"

fun str_contains :: "string \<Rightarrow> string \<Rightarrow> bool" where
  \<comment> \<open>\<open>sub in s\<close>\<close>
  "str_contains sub [] = (sub = [])"
| "str_contains sub (x # xs) = (is_prefix sub (x # xs) \<or> str_contains sub xs)"

definition first_token :: "string \<Rightarrow> py_error + string" where
  \<comment> \<open>\<open>s.split()[0]\<close>: the first run of non-whitespace, IndexError when there is none\<close>
  "first_token s =
     (let t = dropWhile is_space s
      in if t = [] then Inl IndexError else Inr (takeWhile (\<lambda>c. \<not> is_space c) t))"

definition list_get :: "'a list \<Rightarrow> nat \<Rightarrow> py_error + 'a" where
  "list_get xs i = (if i < length xs then Inr (xs ! i) else Inl IndexError)"

subsection \<open>Integers to and from text\<close>

definition digit_char :: "nat \<Rightarrow> char" where
  "digit_char d =
     (if d = 0 then CHR ''0'' else if d = 1 then CHR ''1'' else if d = 2 then CHR ''2''
      else if d = 3 then CHR ''3'' else if d = 4 then CHR ''4'' else if d = 5 then CHR ''5''
      else if d = 6 then CHR ''6'' else if d = 7 then CHR ''7'' else if d = 8 then CHR ''8''
      else CHR ''9'')"

function str_nat :: "nat \<Rightarrow> string" where
  "str_nat n = (if n < 10 then [digit_char n] else str_nat (n div 10) @ [digit_char (n mod 10)])"
  by pat_completeness auto
termination
  by (relation "measure id") auto

declare str_nat.simps [simp del]

definition str_int :: "int \<Rightarrow> string" where
  \<comment> \<open>\<open>str(i)\<close> and \<open>f"{i}"\<close>\<close>
  "str_int i = (if i < 0 then CHR ''-'' # str_nat (nat (- i)) else str_nat (nat i))"

definition digit_table :: "(char \<times> nat) list" where
  "digit_table = [(CHR ''0'', 0), (CHR ''1'', 1), (CHR ''2'', 2), (CHR ''3'', 3), (CHR ''4'', 4),
     (CHR ''5'', 5), (CHR ''6'', 6), (CHR ''7'', 7), (CHR ''8'', 8), (CHR ''9'', 9)]"

definition digit_of :: "char \<Rightarrow> nat option" where
  "digit_of c = map_of digit_table c"

fun parse_digits :: "nat \<Rightarrow> string \<Rightarrow> nat option" where
  \<comment> \<open>after a digit: more digits, each optionally preceded by one underscore\<close>
  "parse_digits acc [] = Some acc"
| "parse_digits acc [c] =
     (case digit_of c of None \<Rightarrow> None | Some v \<Rightarrow> Some (acc * 10 + v))"
| "parse_digits acc (c # d # ds) =
     (if c = CHR ''_''
      then (case digit_of d of None \<Rightarrow> None | Some v \<Rightarrow> parse_digits (acc * 10 + v) ds)
      else (case digit_of c of None \<Rightarrow> None | Some v \<Rightarrow> parse_digits (acc * 10 + v) (d # ds)))"

definition int_space :: "char \<Rightarrow> bool" where
  \<comment> \<open>what \<open>int()\<close> skips around the number: not the separators \<open>0x1C\<close> to \<open>0x1F\<close>\<close>
  "int_space c = (c \<in> set [CHR 0x09, CHR 0x0A, CHR 0x0B, CHR 0x0C, CHR 0x0D, CHR 0x20,
     CHR 0x85, CHR 0xA0])"

definition parse_unsigned :: "string \<Rightarrow> nat option" where
  "parse_unsigned u =
     (case u of [] \<Rightarrow> None
      | d # ds \<Rightarrow> (case digit_of d of None \<Rightarrow> None | Some v \<Rightarrow> parse_digits v ds))"

definition py_int :: "string \<Rightarrow> int option" where
  \<comment> \<open>\<open>int(s)\<close> in base ten; \<open>None\<close> is ValueError. The interpreter's configurable limit
      on the number of digits is not modelled.\<close>
  "py_int s =
     (let t = rev (dropWhile int_space (rev (dropWhile int_space s)))
      in case t of [] \<Rightarrow> None
         | c # r \<Rightarrow>
             if c = CHR ''-'' then map_option (\<lambda>n. - int n) (parse_unsigned r)
             else if c = CHR ''+'' then map_option int (parse_unsigned r)
             else map_option int (parse_unsigned t))"

section \<open>Title parser\<close>

text \<open>
  Lines 140 to 148 of \<open>etl.py\<close>. The body of the \<open>try\<close> block either raises or yields
  the stripped title with the year; the bare \<open>except\<close> resets the title to the raw string
  and the year keeps its initial \<open>None\<close>.
\<close>

definition title_try :: "string \<Rightarrow> py_error + (string \<times> int)" where
  "title_try title_full =
     (let parts = str_rsplit1 CHR ''('' title_full
      in case list_get parts 0 of Inl e \<Rightarrow> Inl e
         | Inr p0 \<Rightarrow>
             (let title = str_strip p0
              in case list_get parts 1 of Inl e \<Rightarrow> Inl e
                 | Inr p1 \<Rightarrow>
                     (case py_int (str_rstrip_chars CHR '')'' p1) of
                        None \<Rightarrow> Inl ValueError
                      | Some y \<Rightarrow> Inr (title, y))))"

definition parse_title :: "string \<Rightarrow> string \<times> int option" where
  "parse_title title_full =
     (if str_endswith title_full CHR '')''
      then (case title_try title_full of
              Inl e \<Rightarrow> (title_full, None)
            | Inr (title, y) \<Rightarrow> (title, Some y))
      else (title_full, None))"

text \<open>
  The parser as section 4.1 of the specification words it: the year is the text between the
  last opening parenthesis and the final closing one.
\<close>

definition spec_parse_title :: "string \<Rightarrow> string \<times> int option" where
  "spec_parse_title s =
     (if str_endswith s CHR '')'' \<and> CHR ''('' \<in> set s
      then (case py_int (butlast (after_last CHR ''('' s)) of
              None \<Rightarrow> (s, None)
            | Some y \<Rightarrow> (str_strip (before_last CHR ''('' s), Some y))
      else (s, None))"

section \<open>Genre normaliser\<close>

definition parse_genres :: "string \<Rightarrow> string list" where
  \<comment> \<open>\<open>parse_genres\<close> on a string argument, for which \<open>pd.isna\<close> is false\<close>
  "parse_genres genre_str =
     (if genre_str = [] then []
      else if CHR ''|'' \<in> set genre_str
      then map str_strip
             (filter (\<lambda>g. str_strip g \<noteq> [] \<and> str_strip g \<noteq> ''(no genres listed)'')
                (str_split CHR ''|'' genre_str))
      else map str_strip (filter (\<lambda>g. str_strip g \<noteq> []) (str_split CHR '','' genre_str)))"

text \<open>
  A Python dictionary keeps its keys in insertion order; storing under a key that is present
  replaces the value where it stands.
\<close>

definition dict_set :: "('k \<times> 'v) list \<Rightarrow> 'k \<Rightarrow> 'v \<Rightarrow> ('k \<times> 'v) list" where
  "dict_set d k v =
     (if k \<in> fst ` set d then map (\<lambda>(k', v'). if k' = k then (k', v) else (k', v')) d
      else d @ [(k, v)])"

definition dict_fromkeys :: "'k list \<Rightarrow> ('k \<times> unit) list" where
  "dict_fromkeys ks = foldl (\<lambda>d k. dict_set d k ()) [] ks"

definition combined_genres :: "string list \<Rightarrow> string list \<Rightarrow> string list" where
  \<comment> \<open>line 179: \<open>list(dict.fromkeys(ml_genres + omdb_genres_list))\<close>\<close>
  "combined_genres ml_genres omdb_genres_list =
     map fst (dict_fromkeys (ml_genres @ omdb_genres_list))"

text \<open>Keeping only the first occurrence of each element, as the specification words it.\<close>

fun dedup_first :: "'a list \<Rightarrow> 'a list" where
  "dedup_first [] = []"
| "dedup_first (x # xs) = x # dedup_first (filter (\<lambda>y. y \<noteq> x) xs)"

section \<open>Metadata cache and fetcher\<close>

text \<open>
  The world outside the process: the cache directory as a map from file names to the decoded
  content of each file, and the metadata service as the outcome of the \<open>n\<close>-th HTTP request
  for given query parameters. \<open>calls\<close> counts the requests made so far and \<open>slept\<close> records
  the waits. The directory accepts every file name and every write succeeds; what
  \<open>json.dumps\<close> writes, \<open>json.loads\<close> reads back unchanged.
\<close>

datatype attempt = TransportError | ParseError | Structured json

record world =
  cache :: "string \<Rightarrow> json option"
  net :: "nat \<Rightarrow> string \<times> string option \<Rightarrow> attempt"
  calls :: nat
  slept :: "nat list"

definition cache_fname :: "string \<Rightarrow> int option \<Rightarrow> string" where
  \<comment> \<open>lines 29 and 30; a year of zero is falsy and is left out like an absent one\<close>
  "cache_fname title year =
     (let safe_name = (case year of None \<Rightarrow> title
                       | Some y \<Rightarrow> if y \<noteq> 0 then title @ ''__'' @ str_int y else title)
      in map (\<lambda>c. if c = CHR ''/'' then CHR ''_'' else c) safe_name @ ''.json'')"

definition request_params :: "string \<Rightarrow> int option \<Rightarrow> string \<times> string option" where
  \<comment> \<open>the query parameters \<open>t\<close> and \<open>y\<close>\<close>
  "request_params title year =
     (title, case year of None \<Rightarrow> None | Some y \<Rightarrow> if y \<noteq> 0 then Some (str_int y) else None)"

definition failure_record :: json where
  "failure_record = JObj [(''Response'', JStr ''False''), (''Error'', JStr ''Failed after retries'')]"

fun attempts :: "string \<Rightarrow> string \<times> string option \<Rightarrow> nat list \<Rightarrow> world \<Rightarrow> world \<times> json option" where
  \<comment> \<open>the \<open>for attempt in range(4)\<close> loop over the attempt numbers still to come\<close>
  "attempts fname params [] w = (w, None)"
| "attempts fname params (attempt # rest) w =
     (case net w (calls w) params of
        Structured data \<Rightarrow>
          (w\<lparr>calls := Suc (calls w), cache := (cache w)(fname \<mapsto> data)\<rparr>, Some data)
      | TransportError \<Rightarrow>
          attempts fname params rest (w\<lparr>calls := Suc (calls w), slept := slept w @ [2 ^ attempt]\<rparr>)
      | ParseError \<Rightarrow>
          attempts fname params rest (w\<lparr>calls := Suc (calls w), slept := slept w @ [2 ^ attempt]\<rparr>))"

definition range_4 :: "nat list" where
  \<comment> \<open>\<open>range(4)\<close>\<close>
  "range_4 = [0, 1, 2, 3]"

definition omdb_lookup :: "world \<Rightarrow> string \<Rightarrow> int option \<Rightarrow> world \<times> json" where
  "omdb_lookup w title year =
     (let fname = cache_fname title year
      in case cache w fname of
           Some data \<Rightarrow> (w, data)
         | None \<Rightarrow>
             (case attempts fname (request_params title year) range_4 w of
                (w', Some data) \<Rightarrow> (w', data)
              | (w', None) \<Rightarrow> (w', failure_record)))"

definition json_get :: "json \<Rightarrow> string \<Rightarrow> py_error + json" where
  \<comment> \<open>\<open>v.get(k)\<close>: only a dictionary has the method; a missing key gives \<open>None\<close>\<close>
  "json_get v k =
     (case v of
        JObj kv \<Rightarrow> Inr (case map_of kv k of None \<Rightarrow> JNull | Some x \<Rightarrow> x)
      | _ \<Rightarrow> Inl AttributeError)"



definition echo_world :: world where
  "echo_world = \<lparr>cache = (\<lambda>f. None),
     net = (\<lambda>n p. Structured (JObj [(''Title'', JStr (fst p)), (''Response'', JStr ''True'')])),
     calls = 0, slept = []\<rparr>"

section \<open>Relational store\<close>

text \<open>
  Modelled from the spec: \<open>schema.sql\<close> is not among the sources. Section 6 of the
  specification gives the tables and their columns, the uniqueness of a pair in the two
  join tables and the primary key of \<open>ratings\<close> (which the comment at line 117 repeats). The
  \<open>id\<close> of a new row is generated as SQLite does for an integer primary key: one more than
  the largest in the table. Column affinities are not modelled: a value is stored as it is
  bound.
\<close>

datatype sqlval = SqlNull | SqlInt int | SqlText string

record movie_row =
  m_id :: nat
  m_movie_id :: sqlval
  m_title :: string
  m_year :: "int option"
  m_runtime_minutes :: "int option"
  m_plot :: sqlval
  m_box_office :: sqlval

text \<open>
  A row of \<open>ratings\<close>: the primary key (user, movie) with the rating and the timestamp. A
  rating is a finite number; the loader stores it and never computes with it.
\<close>

type_synonym rating_row = "(int \<times> int) \<times> (real \<times> int)"

record tables =
  movies :: "movie_row list"
  genres :: "(nat \<times> string) list"
  directors :: "(nat \<times> string) list"
  movie_genres :: "(nat \<times> nat) list"
  movie_directors :: "(nat \<times> nat) list"
  ratings :: "rating_row list"

text \<open>
  A connection: the committed state of the store, the state its open transaction sees, and
  the environment's faults, \<open>faults c n\<close> being the error that the \<open>n\<close>-th statement sent
  over the connection meets whatever the tables hold (a lost connection, a constraint of
  the schema beyond those modelled here).
\<close>

record conn =
  committed :: tables
  pending :: tables
  faults :: "nat \<Rightarrow> db_error option"
  stmts :: nat

definition on_ok :: "'e + 'a \<Rightarrow> ('a \<Rightarrow> 'e + 'b) \<Rightarrow> 'e + 'b" where
  "on_ok r f = (case r of Inl e \<Rightarrow> Inl e | Inr x \<Rightarrow> f x)"

definition int64 :: "int \<Rightarrow> bool" where
  "int64 i = (- (2 ^ 63) \<le> i \<and> i < 2 ^ 63)"

definition bind_int :: "int \<Rightarrow> py_error + int" where
  \<comment> \<open>the driver refuses an integer that does not fit SQLite's 64 bits\<close>
  "bind_int i = (if int64 i then Inr i else Inl OverflowError)"

definition bind_opt_int :: "int option \<Rightarrow> py_error + int option" where
  "bind_opt_int v = (case v of None \<Rightarrow> Inr None | Some i \<Rightarrow> on_ok (bind_int i) (\<lambda>j. Inr (Some j)))"

definition bind :: "json \<Rightarrow> py_error + sqlval" where
  \<comment> \<open>binding a Python value as a statement parameter: lists and dictionaries are refused\<close>
  "bind v =
     (case v of
        JNull \<Rightarrow> Inr SqlNull
      | JBool b \<Rightarrow> Inr (SqlInt (if b then 1 else 0))
      | JNum n \<Rightarrow> on_ok (bind_int n) (\<lambda>i. Inr (SqlInt i))
      | JStr s \<Rightarrow> Inr (SqlText s)
      | JArr xs \<Rightarrow> Inl (DBError InterfaceError)
      | JObj kv \<Rightarrow> Inl (DBError InterfaceError))"

definition execute :: "conn \<Rightarrow> (tables \<Rightarrow> py_error + tables \<times> 'a) \<Rightarrow> conn \<times> (py_error + 'a)" where
  \<comment> \<open>\<open>conn.execute\<close>: the statement runs on the pending state unless the environment faults\<close>
  "execute c stmt =
     (case faults c (stmts c) of
        Some e \<Rightarrow> (c\<lparr>stmts := Suc (stmts c)\<rparr>, Inl (DBError e))
      | None \<Rightarrow>
          (case stmt (pending c) of
             Inl e \<Rightarrow> (c\<lparr>stmts := Suc (stmts c)\<rparr>, Inl e)
           | Inr (t, r) \<Rightarrow> (c\<lparr>pending := t, stmts := Suc (stmts c)\<rparr>, Inr r)))"

definition fresh_id :: "nat list \<Rightarrow> nat" where
  "fresh_id ids = Suc (foldr max ids 0)"

subsection \<open>Statements\<close>

definition sql_eq :: "sqlval \<Rightarrow> sqlval \<Rightarrow> bool" where
  \<comment> \<open>\<open>a = b\<close> in a WHERE clause: never true of NULL\<close>
  "sql_eq a b = (a \<noteq> SqlNull \<and> b \<noteq> SqlNull \<and> a = b)"

definition movie_where :: "sqlval \<Rightarrow> string \<Rightarrow> movie_row \<Rightarrow> bool" where
  \<comment> \<open>\<open>WHERE movie_id = :mid OR title = :title\<close>\<close>
  "movie_where mid title r = (sql_eq (m_movie_id r) mid \<or> m_title r = title)"

definition sql_select_movie_id :: "json \<Rightarrow> string \<Rightarrow> tables \<Rightarrow> py_error + tables \<times> nat option" where
  \<comment> \<open>line 73 with \<open>fetchone\<close>: the first matching row in table order\<close>
  "sql_select_movie_id mid title t =
     on_ok (bind mid) (\<lambda>m. Inr (t, map_option m_id (find (movie_where m title) (movies t))))"

definition set_mutable :: "int option \<Rightarrow> int option \<Rightarrow> sqlval \<Rightarrow> sqlval \<Rightarrow> movie_row \<Rightarrow> movie_row" where
  \<comment> \<open>\<open>SET year=:year, runtime_minutes=:runtime, plot=:plot, box_office=:box_office\<close>\<close>
  "set_mutable y rt p b r = r\<lparr>m_year := y, m_runtime_minutes := rt, m_plot := p, m_box_office := b\<rparr>"

definition new_movie ::
  "nat \<Rightarrow> sqlval \<Rightarrow> string \<Rightarrow> int option \<Rightarrow> int option \<Rightarrow> sqlval \<Rightarrow> sqlval \<Rightarrow> movie_row" where
  "new_movie i m title y rt p b =
     \<lparr>m_id = i, m_movie_id = m, m_title = title, m_year = y, m_runtime_minutes = rt,
      m_plot = p, m_box_office = b\<rparr>"

definition sql_update_movie ::
  "int option \<Rightarrow> int option \<Rightarrow> json \<Rightarrow> json \<Rightarrow> nat \<Rightarrow> tables \<Rightarrow> py_error + tables \<times> unit" where
  \<comment> \<open>lines 77 to 80\<close>
  "sql_update_movie year runtime plot box_office i t =
     on_ok (bind_opt_int year) (\<lambda>y.
     on_ok (bind_opt_int runtime) (\<lambda>rt.
     on_ok (bind plot) (\<lambda>p.
     on_ok (bind box_office) (\<lambda>b.
       Inr (t\<lparr>movies := map (\<lambda>r. if m_id r = i then set_mutable y rt p b r else r) (movies t)\<rparr>,
            ())))))"

definition sql_insert_movie ::
  "json \<Rightarrow> string \<Rightarrow> int option \<Rightarrow> int option \<Rightarrow> json \<Rightarrow> json \<Rightarrow> tables \<Rightarrow> py_error + tables \<times> nat" where
  \<comment> \<open>lines 83 to 87; the result is \<open>lastrowid\<close>\<close>
  "sql_insert_movie mid title year runtime plot box_office t =
     on_ok (bind mid) (\<lambda>m.
     on_ok (bind_opt_int year) (\<lambda>y.
     on_ok (bind_opt_int runtime) (\<lambda>rt.
     on_ok (bind plot) (\<lambda>p.
     on_ok (bind box_office) (\<lambda>b.
       (let i = fresh_id (map m_id (movies t))
        in Inr (t\<lparr>movies := movies t @ [new_movie i m title y rt p b]\<rparr>, i)))))))"

definition sql_select_name_id :: "(nat \<times> string) list \<Rightarrow> string \<Rightarrow> nat option" where
  "sql_select_name_id tbl name = map_option fst (find (\<lambda>r. snd r = name) tbl)"

definition sql_select_genre_id :: "string \<Rightarrow> tables \<Rightarrow> py_error + tables \<times> nat option" where
  "sql_select_genre_id name t = Inr (t, sql_select_name_id (genres t) name)"

definition sql_insert_genre :: "string \<Rightarrow> tables \<Rightarrow> py_error + tables \<times> nat" where
  "sql_insert_genre name t =
     (let i = fresh_id (map fst (genres t)) in Inr (t\<lparr>genres := genres t @ [(i, name)]\<rparr>, i))"

definition sql_select_director_id :: "string \<Rightarrow> tables \<Rightarrow> py_error + tables \<times> nat option" where
  "sql_select_director_id name t = Inr (t, sql_select_name_id (directors t) name)"

definition sql_insert_director :: "string \<Rightarrow> tables \<Rightarrow> py_error + tables \<times> nat" where
  "sql_insert_director name t =
     (let i = fresh_id (map fst (directors t)) in Inr (t\<lparr>directors := directors t @ [(i, name)]\<rparr>, i))"

definition sql_insert_movie_genre :: "nat \<Rightarrow> nat \<Rightarrow> tables \<Rightarrow> py_error + tables \<times> unit" where
  \<comment> \<open>line 99: the pair is unique in the table\<close>
  "sql_insert_movie_genre m g t =
     (if (m, g) \<in> set (movie_genres t) then Inl (DBError (IntegrityError UniqueViolation))
      else Inr (t\<lparr>movie_genres := movie_genres t @ [(m, g)]\<rparr>, ()))"

definition sql_insert_movie_director :: "nat \<Rightarrow> nat \<Rightarrow> tables \<Rightarrow> py_error + tables \<times> unit" where
  \<comment> \<open>line 112\<close>
  "sql_insert_movie_director m d t =
     (if (m, d) \<in> set (movie_directors t) then Inl (DBError (IntegrityError UniqueViolation))
      else Inr (t\<lparr>movie_directors := movie_directors t @ [(m, d)]\<rparr>, ()))"

definition sql_replace_rating :: "int \<Rightarrow> int \<Rightarrow> real \<Rightarrow> int \<Rightarrow> tables \<Rightarrow> py_error + tables \<times> unit" where
  \<comment> \<open>lines 119 to 122, \<open>INSERT OR REPLACE\<close>: the rows with the new row's primary key go first\<close>
  "sql_replace_rating u m r ts t =
     on_ok (bind_int u) (\<lambda>u'.
     on_ok (bind_int m) (\<lambda>m'.
     on_ok (bind_int ts) (\<lambda>ts'.
       Inr (t\<lparr>ratings := filter (\<lambda>row. fst row \<noteq> (u', m')) (ratings t) @ [((u', m'), (r, ts'))]\<rparr>, ()))))"

subsection \<open>Record linker\<close>

definition upsert_movie ::
  "conn \<Rightarrow> json \<Rightarrow> string \<Rightarrow> int option \<Rightarrow> int option \<Rightarrow> json \<Rightarrow> json \<Rightarrow> conn \<times> (py_error + nat)" where
  "upsert_movie c movie_unique_id title year runtime plot box_office =
     (case execute c (sql_select_movie_id movie_unique_id title) of
        (c1, Inl e) \<Rightarrow> (c1, Inl e)
      | (c1, Inr (Some movie_db_id)) \<Rightarrow>
          (case execute c1 (sql_update_movie year runtime plot box_office movie_db_id) of
             (c2, Inl e) \<Rightarrow> (c2, Inl e)
           | (c2, Inr u) \<Rightarrow> (c2, Inr movie_db_id))
      | (c1, Inr None) \<Rightarrow>
          execute c1 (sql_insert_movie movie_unique_id title year runtime plot box_office))"

definition get_or_create_genre :: "conn \<Rightarrow> string \<Rightarrow> conn \<times> (py_error + nat)" where
  "get_or_create_genre c name =
     (case execute c (sql_select_genre_id name) of
        (c1, Inl e) \<Rightarrow> (c1, Inl e)
      | (c1, Inr (Some i)) \<Rightarrow> (c1, Inr i)
      | (c1, Inr None) \<Rightarrow> execute c1 (sql_insert_genre name))"

definition link_movie_genre :: "conn \<Rightarrow> nat \<Rightarrow> nat \<Rightarrow> conn \<times> (py_error + unit)" where
  \<comment> \<open>\<open>except IntegrityError: pass\<close> takes every integrity error, whatever the constraint\<close>
  "link_movie_genre c movie_db_id genre_id =
     (case execute c (sql_insert_movie_genre movie_db_id genre_id) of
        (c1, Inl (DBError (IntegrityError k))) \<Rightarrow> (c1, Inr ())
      | (c1, Inl e) \<Rightarrow> (c1, Inl e)
      | (c1, Inr u) \<Rightarrow> (c1, Inr ()))"

definition get_or_create_director :: "conn \<Rightarrow> string \<Rightarrow> conn \<times> (py_error + nat)" where
  "get_or_create_director c name =
     (case execute c (sql_select_director_id name) of
        (c1, Inl e) \<Rightarrow> (c1, Inl e)
      | (c1, Inr (Some i)) \<Rightarrow> (c1, Inr i)
      | (c1, Inr None) \<Rightarrow> execute c1 (sql_insert_director name))"

definition link_movie_director :: "conn \<Rightarrow> nat \<Rightarrow> nat \<Rightarrow> conn \<times> (py_error + unit)" where
  "link_movie_director c movie_db_id director_id =
     (case execute c (sql_insert_movie_director movie_db_id director_id) of
        (c1, Inl (DBError (IntegrityError k))) \<Rightarrow> (c1, Inr ())
      | (c1, Inl e) \<Rightarrow> (c1, Inl e)
      | (c1, Inr u) \<Rightarrow> (c1, Inr ()))"

subsection \<open>Ratings loader\<close>

record rating_in =
  in_userId :: int
  in_movieId :: int
  in_rating :: real
  in_timestamp :: int

fun load_ratings :: "conn \<Rightarrow> rating_in list \<Rightarrow> conn \<times> (py_error + unit)" where
  "load_ratings c [] = (c, Inr ())"
| "load_ratings c (row # rows) =
     (case execute c (sql_replace_rating (in_userId row) (in_movieId row) (in_rating row)
                        (in_timestamp row)) of
        (c1, Inl e) \<Rightarrow> (c1, Inl e)
      | (c1, Inr u) \<Rightarrow> load_ratings c1 rows)"

definition empty_tables :: tables where
  "empty_tables = \<lparr>movies = [], genres = [], directors = [], movie_genres = [],
     movie_directors = [], ratings = []\<rparr>"




definition runs_clean :: "conn \<Rightarrow> nat \<Rightarrow> bool" where
  \<comment> \<open>the next \<open>n\<close> statements meet no fault of the environment\<close>
  "runs_clean c n = (\<forall>k<n. faults c (stmts c + k) = None)"

definition fresh_conn :: conn where
  "fresh_conn = \<lparr>committed = empty_tables, pending = empty_tables, faults = (\<lambda>n. None), stmts = 0\<rparr>"

section \<open>Pipeline driver\<close>

definition truthy :: "json \<Rightarrow> bool" where
  "truthy v =
     (case v of JNull \<Rightarrow> False | JBool b \<Rightarrow> b | JNum n \<Rightarrow> n \<noteq> 0 | JStr s \<Rightarrow> s \<noteq> []
      | JArr xs \<Rightarrow> xs \<noteq> [] | JObj kv \<Rightarrow> kv \<noteq> [])"

text \<open>
  A row of the catalog as \<open>pandas\<close> reads it: the identifier, and the title and genre cells,
  which are \<open>None\<close> here where the file leaves them empty (\<open>NaN\<close> in the data frame).
\<close>

record movie_in =
  in_id :: int
  in_title :: "string option"
  in_genres :: "string option"

definition runtime_try :: "json \<Rightarrow> py_error + int option" where
  \<comment> \<open>lines 156 and 157: the \<open>in\<close> test raises on a number, \<open>split\<close> exists on strings only\<close>
  "runtime_try rt =
     (if \<not> truthy rt then Inr None
      else case rt of
             JStr s \<Rightarrow>
               (if str_contains ''min'' s
                then on_ok (first_token s) (\<lambda>tok.
                       case py_int tok of None \<Rightarrow> Inl ValueError | Some n \<Rightarrow> Inr (Some n))
                else Inr None)
           | JArr xs \<Rightarrow> (if JStr ''min'' \<in> set xs then Inl AttributeError else Inr None)
           | JObj kv \<Rightarrow> (if ''min'' \<in> fst ` set kv then Inl AttributeError else Inr None)
           | _ \<Rightarrow> Inl TypeError)"

definition extract_runtime :: "json \<Rightarrow> int option" where
  \<comment> \<open>lines 154 to 159: the bare \<open>except\<close> turns every error into \<open>None\<close>\<close>
  "extract_runtime rt = (case runtime_try rt of Inl e \<Rightarrow> None | Inr r \<Rightarrow> r)"

record metadata =
  md_imdb_id :: json
  md_runtime :: "int option"
  md_plot :: json
  md_box_office :: json
  md_genres :: json
  md_director :: json

definition extract_metadata :: "json \<Rightarrow> py_error + metadata" where
  \<comment> \<open>lines 152 to 170\<close>
  "extract_metadata omdb =
     on_ok (json_get omdb ''Response'') (\<lambda>response.
       if response = JStr ''True''
       then on_ok (json_get omdb ''imdbID'') (\<lambda>i.
            on_ok (json_get omdb ''Runtime'') (\<lambda>rt.
            on_ok (json_get omdb ''Plot'') (\<lambda>p.
            on_ok (json_get omdb ''BoxOffice'') (\<lambda>b.
            on_ok (json_get omdb ''Genre'') (\<lambda>g.
            on_ok (json_get omdb ''Director'') (\<lambda>d.
              Inr \<lparr>md_imdb_id = i, md_runtime = extract_runtime rt, md_plot = p, md_box_office = b,
                   md_genres = g, md_director = d\<rparr>))))))
       else Inr \<lparr>md_imdb_id = JNull, md_runtime = None, md_plot = JNull, md_box_office = JNull,
                 md_genres = JNull, md_director = JNull\<rparr>)"

definition parse_genres_value :: "(json \<Rightarrow> py_error + bool) \<Rightarrow> json \<Rightarrow> py_error + string list" where
  \<comment> \<open>\<open>parse_genres\<close> on any decoded value. \<open>pd.isna\<close> is false of a string, a number and a
      boolean; \<open>isna\<close> is the truth value it gives for a non-empty list or dictionary, or the
      error that taking it raises, \<open>pandas\<close> not being among the sources. Past that test a
      number meets \<open>in\<close> and a list or dictionary meets \<open>split\<close>.\<close>
  "parse_genres_value isna v =
     (if \<not> truthy v then Inr []
      else case v of
             JStr s \<Rightarrow> Inr (parse_genres s)
           | JArr xs \<Rightarrow> on_ok (isna v) (\<lambda>na. if na then Inr [] else Inl AttributeError)
           | JObj kv \<Rightarrow> on_ok (isna v) (\<lambda>na. if na then Inr [] else Inl AttributeError)
           | _ \<Rightarrow> Inl TypeError)"

definition director_names :: "json \<Rightarrow> py_error + string list" where
  \<comment> \<open>lines 185 and 186\<close>
  "director_names d =
     (if truthy d \<and> d \<noteq> JStr ''N/A''
      then (case d of
              JStr s \<Rightarrow> Inr (map str_strip (filter (\<lambda>x. str_strip x \<noteq> []) (str_split CHR '','' s)))
            | _ \<Rightarrow> Inl AttributeError)
      else Inr [])"

fun link_genres :: "conn \<Rightarrow> nat \<Rightarrow> string list \<Rightarrow> conn \<times> (py_error + unit)" where
  \<comment> \<open>lines 180 to 182\<close>
  "link_genres c movie_db_id [] = (c, Inr ())"
| "link_genres c movie_db_id (g # gs) =
     (case get_or_create_genre c g of
        (c1, Inl e) \<Rightarrow> (c1, Inl e)
      | (c1, Inr gid) \<Rightarrow>
          (case link_movie_genre c1 movie_db_id gid of
             (c2, Inl e) \<Rightarrow> (c2, Inl e)
           | (c2, Inr u) \<Rightarrow> link_genres c2 movie_db_id gs))"

fun link_directors :: "conn \<Rightarrow> nat \<Rightarrow> string list \<Rightarrow> conn \<times> (py_error + unit)" where
  \<comment> \<open>lines 187 to 189\<close>
  "link_directors c movie_db_id [] = (c, Inr ())"
| "link_directors c movie_db_id (dn # dns) =
     (case get_or_create_director c dn of
        (c1, Inl e) \<Rightarrow> (c1, Inl e)
      | (c1, Inr did) \<Rightarrow>
          (case link_movie_director c1 movie_db_id did of
             (c2, Inl e) \<Rightarrow> (c2, Inl e)
           | (c2, Inr u) \<Rightarrow> link_directors c2 movie_db_id dns))"

definition store_movie ::
  "(json \<Rightarrow> py_error + bool) \<Rightarrow> conn \<Rightarrow> movie_in \<Rightarrow> string \<Rightarrow> int option \<Rightarrow> metadata
     \<Rightarrow> conn \<times> (py_error + unit)" where
  \<comment> \<open>lines 172 to 189\<close>
  "store_movie isna c row title year md =
     (let movie_unique_id =
            (if truthy (md_imdb_id md) then md_imdb_id md else JStr (''ML_'' @ str_int (in_id row)))
      in case upsert_movie c movie_unique_id title year (md_runtime md) (md_plot md) (md_box_office md) of
           (c1, Inl e) \<Rightarrow> (c1, Inl e)
         | (c1, Inr movie_db_id) \<Rightarrow>
             (let ml_genres = (case in_genres row of None \<Rightarrow> [] | Some s \<Rightarrow> parse_genres s)
              in case (if truthy (md_genres md) then parse_genres_value isna (md_genres md)
                       else Inr []) of
                   Inl e \<Rightarrow> (c1, Inl e)
                 | Inr omdb_genres_list \<Rightarrow>
                     (case link_genres c1 movie_db_id (combined_genres ml_genres omdb_genres_list) of
                        (c2, Inl e) \<Rightarrow> (c2, Inl e)
                      | (c2, Inr u) \<Rightarrow>
                          (case director_names (md_director md) of
                             Inl e \<Rightarrow> (c2, Inl e)
                           | Inr names \<Rightarrow> link_directors c2 movie_db_id names))))"

definition process_movie ::
  "(json \<Rightarrow> py_error + bool) \<Rightarrow> world \<Rightarrow> conn \<Rightarrow> movie_in \<Rightarrow> world \<times> conn \<times> (py_error + unit)" where
  \<comment> \<open>the body of the loop, lines 137 to 189; a missing title is a float and has no
      \<open>endswith\<close>\<close>
  "process_movie isna w c row =
     (case in_title row of
        None \<Rightarrow> (w, c, Inl AttributeError)
      | Some title_full \<Rightarrow>
          (let (title, year) = parse_title title_full;
               (w1, omdb) = omdb_lookup w title year
           in case extract_metadata omdb of
                Inl e \<Rightarrow> (w1, c, Inl e)
              | Inr md \<Rightarrow>
                  (case store_movie isna c row title year md of (c1, r) \<Rightarrow> (w1, c1, r))))"

fun movie_loop ::
  "(json \<Rightarrow> py_error + bool) \<Rightarrow> world \<Rightarrow> conn \<Rightarrow> movie_in list \<Rightarrow> world \<times> conn \<times> (py_error + unit)" where
  "movie_loop isna w c [] = (w, c, Inr ())"
| "movie_loop isna w c (row # rows) =
     (case process_movie isna w c row of
        (w1, c1, Inl e) \<Rightarrow> (w1, c1, Inl e)
      | (w1, c1, Inr u) \<Rightarrow> movie_loop isna w1 c1 rows)"

definition commit :: "conn \<Rightarrow> conn \<times> (py_error + unit)" where
  \<comment> \<open>\<open>conn.commit()\<close>: the pending state becomes the committed one, unless the environment faults\<close>
  "commit c =
     (case faults c (stmts c) of
        Some e \<Rightarrow> (c\<lparr>stmts := Suc (stmts c)\<rparr>, Inl (DBError e))
      | None \<Rightarrow> (c\<lparr>committed := pending c, stmts := Suc (stmts c)\<rparr>, Inr ()))"

definition connect :: "conn \<Rightarrow> conn" where
  \<comment> \<open>\<open>engine.connect()\<close>: a new connection sees the committed state\<close>
  "connect c = c\<lparr>pending := committed c\<rparr>"

definition close :: "conn \<Rightarrow> conn" where
  \<comment> \<open>leaving the \<open>with\<close> block closes the connection: what was not committed is rolled back\<close>
  "close c = c\<lparr>pending := committed c\<rparr>"

definition main ::
  "(json \<Rightarrow> py_error + bool) \<Rightarrow> world \<Rightarrow> conn \<Rightarrow> movie_in list \<Rightarrow> rating_in list
     \<Rightarrow> world \<times> conn \<times> (py_error + unit)" where
  \<comment> \<open>lines 131 to 191, the data frames read and the schema in place\<close>
  "main isna w engine movies_df ratings_df =
     (case load_ratings (connect engine) ratings_df of
        (c1, Inl e) \<Rightarrow> (w, close c1, Inl e)
      | (c1, Inr u) \<Rightarrow>
          (case movie_loop isna w c1 movies_df of
             (w2, c2, Inl e) \<Rightarrow> (w2, close c2, Inl e)
           | (w2, c2, Inr u) \<Rightarrow>
               (case commit c2 of
                  (c3, Inl e) \<Rightarrow> (w2, close c3, Inl e)
                | (c3, Inr u) \<Rightarrow> (w2, close c3, Inr ()))))"

definition heat_world :: world where
  "heat_world = \<lparr>cache = (\<lambda>f. None),
     net = (\<lambda>n p. Structured (JObj [(''Response'', JStr ''True''), (''imdbID'', JStr ''tt0113277''),
        (''Runtime'', JStr ''170 min''), (''Plot'', JStr ''A heist.''), (''BoxOffice'', JStr ''N/A''),
        (''Genre'', JStr ''Action, Crime''), (''Director'', JStr ''Michael Mann'')])),
     calls = 0, slept = []\<rparr>"

definition heat_row :: movie_in where
  "heat_row = \<lparr>in_id = 6, in_title = Some ''Heat (1995)'', in_genres = Some ''Action|Crime|Thriller''\<rparr>"

definition no_isna :: "json \<Rightarrow> py_error + bool" where
  "no_isna v = Inr False"

definition failing_conn :: "nat \<Rightarrow> conn" where
  \<comment> \<open>an empty store whose connection is lost at statement \<open>n\<close>\<close>
  "failing_conn n = fresh_conn\<lparr>faults := (\<lambda>k. if k = n then Some OperationalError else None)\<rparr>"


text \<open>Concrete stores and inputs.\<close>

definition two_rows_conn :: conn where
  "two_rows_conn = fresh_conn\<lparr>pending := empty_tables\<lparr>movies :=
     [new_movie 1 (SqlText ''a'') ''T'' None None SqlNull SqlNull,
      new_movie 2 (SqlText ''b'') ''U'' None None SqlNull SqlNull]\<rparr>\<rparr>"


section \<open>Properties\<close>

subsection \<open>Genre normaliser\<close>

lemma parse_genres_pipe_branch:
  "CHR ''|'' \<in> set s \<Longrightarrow>
   ''(no genres listed)'' \<notin> set (parse_genres s) \<and> [] \<notin> set (parse_genres s)"
  by (auto simp: parse_genres_def)

lemma parse_genres_nonempty_names: "[] \<notin> set (parse_genres s)"
  by (auto simp: parse_genres_def)

lemma normaliser_examples:
  "parse_genres ''Comedy, Action'' = [''Comedy'', ''Action'']"
  "combined_genres [''Action'', ''Adventure''] [''Comedy'', ''Action'']
     = [''Action'', ''Adventure'', ''Comedy'']"
  by (simp_all add: parse_genres_def str_strip_def is_space_def whitespace_def
      combined_genres_def dict_fromkeys_def dict_set_def)

text \<open>
  C4. The sentinel is dropped only on the branch taken when the string contains a pipe. The
  catalog string that consists of the sentinel alone has no pipe, goes down the comma branch
  and comes back as a genre name; so does a comma-separated string that contains it.
\<close>

theorem parse_genres_sentinel_kept:
  "parse_genres ''(no genres listed)'' = [''(no genres listed)''] \<and>
   parse_genres ''Drama, (no genres listed)'' = [''Drama'', ''(no genres listed)''] \<and>
   parse_genres ''Action|Adventure|(no genres listed)'' = [''Action'', ''Adventure'']"
  by (simp add: parse_genres_def str_strip_def is_space_def whitespace_def)

lemma keys_dict_set:
  "map fst (dict_set d k v) = (if k \<in> set (map fst d) then map fst d else map fst d @ [k])"
  by (induction d) (auto simp: dict_set_def split: prod.splits)

lemma keys_foldl_dict_set:
  "map fst (foldl (\<lambda>d k. dict_set d k ()) d ks) =
     map fst d @ dedup_first (filter (\<lambda>k. k \<notin> set (map fst d)) ks)"
proof (induction ks arbitrary: d)
  case Nil
  then show ?case by simp
next
  case (Cons k ks)
  show ?case
  proof (cases "k \<in> set (map fst d)")
    case True
    then show ?thesis using Cons.IH [of "dict_set d k ()"] by (simp add: keys_dict_set)
  next
    case False
    have "filter (\<lambda>y. y \<noteq> k) (filter (\<lambda>k. k \<notin> set (map fst d)) ks) =
          filter (\<lambda>x. x \<notin> set (map fst d @ [k])) ks"
      by (induction ks) auto
    with False show ?thesis using Cons.IH [of "dict_set d k ()"] by (simp add: keys_dict_set)
  qed
qed

lemma set_dedup_first: "set (dedup_first xs) = set xs"
  by (induction xs rule: dedup_first.induct) auto

lemma distinct_dedup_first: "distinct (dedup_first xs)"
  by (induction xs rule: dedup_first.induct) (auto simp: set_dedup_first)

text \<open>
  C5. The merged genre list is the catalog list followed by the API list with only the first
  occurrence of each name kept: its elements are distinct, and they are exactly the names of
  the two lists.
\<close>

theorem combined_genres_first_occurrence:
  "combined_genres ml om = dedup_first (ml @ om) \<and>
   distinct (combined_genres ml om) \<and>
   set (combined_genres ml om) = set ml \<union> set om"
proof -
  have "combined_genres ml om = dedup_first (ml @ om)"
    using keys_foldl_dict_set [of "[]" "ml @ om"]
    by (simp add: combined_genres_def dict_fromkeys_def)
  then show ?thesis by (simp add: distinct_dedup_first set_dedup_first)
qed

subsection \<open>Title parser\<close>

lemma parse_title_examples:
  "parse_title ''Toy Story (1995)'' = (''Toy Story'', Some 1995)"
  "parse_title ''Heat'' = (''Heat'', None)"
  "parse_title ''Weird (abc)'' = (''Weird (abc)'', None)"
  by (simp_all add: parse_title_def title_try_def str_endswith_def str_rsplit1_def list_get_def
      before_last_def after_last_def str_strip_def str_rstrip_chars_def py_int_def
      parse_unsigned_def digit_of_def digit_table_def int_space_def is_space_def whitespace_def)

text \<open>
  C6, as stated, fails: with two closing parentheses at the end the text between the last
  opening parenthesis and the final closing one is \<open>1995)\<close>, which is no integer, yet the
  code strips every trailing closing parenthesis and reads the year.
\<close>

theorem parse_title_double_paren:
  "parse_title ''Foo (1995))'' = (''Foo'', Some 1995) \<and>
   spec_parse_title ''Foo (1995))'' = (''Foo (1995))'', None)"
  by (simp add: parse_title_def spec_parse_title_def title_try_def str_endswith_def
      str_rsplit1_def list_get_def before_last_def after_last_def str_strip_def
      str_rstrip_chars_def py_int_def parse_unsigned_def digit_of_def digit_table_def
      int_space_def
      is_space_def whitespace_def)

text \<open>
  C6, amended. If the string ends with a closing parenthesis, contains an opening one, and
  the text after the last opening parenthesis, with all its trailing closing parentheses
  removed, parses as an integer, the result is the stripped left portion with that year; in
  every other case it is the whole string with no year. The function is total: it never
  fails.
\<close>

theorem parse_title_characterisation:
  "parse_title s =
     (if str_endswith s CHR '')'' \<and> CHR ''('' \<in> set s
      then (case py_int (str_rstrip_chars CHR '')'' (after_last CHR ''('' s)) of
              None \<Rightarrow> (s, None)
            | Some y \<Rightarrow> (str_strip (before_last CHR ''('' s), Some y))
      else (s, None))"
  by (simp add: parse_title_def title_try_def str_rsplit1_def list_get_def split: option.splits)

subsection \<open>Metadata fetcher\<close>












text \<open>
  C10. The file name does not determine the key: a title that ends in two underscores and
  digits collides with a shorter title and a year, and a slash collides with an underscore.
  After a fetch for one key, the fetch for the other returns the first one's record and makes
  no request.
\<close>

theorem cache_fname_not_injective:
  "cache_fname ''T__1995'' None = cache_fname ''T'' (Some 1995) \<and>
   cache_fname ''a/b'' None = cache_fname ''a_b'' None \<and>
   snd (omdb_lookup echo_world ''T__1995'' None)
     = JObj [(''Title'', JStr ''T__1995''), (''Response'', JStr ''True'')] \<and>
   snd (omdb_lookup (fst (omdb_lookup echo_world ''T'' (Some 1995))) ''T__1995'' None)
     = JObj [(''Title'', JStr ''T''), (''Response'', JStr ''True'')] \<and>
   calls (fst (omdb_lookup (fst (omdb_lookup echo_world ''T'' (Some 1995))) ''T__1995'' None)) = 1"
  by (simp add: omdb_lookup_def cache_fname_def request_params_def echo_world_def str_int_def
      str_nat.simps digit_char_def range_4_def)

subsection \<open>Record linker\<close>

lemma execute_ok:
  "faults c (stmts c) = None \<Longrightarrow> stmt (pending c) = Inr (t, r) \<Longrightarrow>
   execute c stmt = (c\<lparr>pending := t, stmts := Suc (stmts c)\<rparr>, Inr r)"
  by (simp add: execute_def)



lemma upsert_movie_found:
  assumes nf: "faults c (stmts c) = None" "faults c (Suc (stmts c)) = None"
    and b: "bind mid = Inr m" "bind_opt_int year = Inr y" "bind_opt_int runtime = Inr rt"
      "bind plot = Inr p" "bind box = Inr bx"
    and f: "find (movie_where m title) (movies (pending c)) = Some r"
  shows "upsert_movie c mid title year runtime plot box =
    (c\<lparr>pending := (pending c)\<lparr>movies :=
          map (\<lambda>x. if m_id x = m_id r then set_mutable y rt p bx x else x) (movies (pending c))\<rparr>,
       stmts := Suc (Suc (stmts c))\<rparr>, Inr (m_id r))"
proof -
  have s1: "sql_select_movie_id mid title (pending c) = Inr (pending c, Some (m_id r))"
    using b f by (simp add: sql_select_movie_id_def on_ok_def)
  let ?c1 = "c\<lparr>stmts := Suc (stmts c)\<rparr>"
  have e1: "execute c (sql_select_movie_id mid title) = (?c1, Inr (Some (m_id r)))"
    using execute_ok [of c "sql_select_movie_id mid title"] nf s1 by simp
  let ?t = "(pending c)\<lparr>movies :=
          map (\<lambda>x. if m_id x = m_id r then set_mutable y rt p bx x else x) (movies (pending c))\<rparr>"
  have s2: "sql_update_movie year runtime plot box (m_id r) (pending ?c1) = Inr (?t, ())"
    using b by (simp add: sql_update_movie_def on_ok_def)
  have e2: "execute ?c1 (sql_update_movie year runtime plot box (m_id r)) =
      (c\<lparr>pending := ?t, stmts := Suc (Suc (stmts c))\<rparr>, Inr ())"
    using execute_ok [of ?c1 "sql_update_movie year runtime plot box (m_id r)" ?t "()"] nf s2
    by simp
  show ?thesis
    by (simp add: upsert_movie_def e1 e2)
qed

lemma upsert_movie_new:
  assumes nf: "faults c (stmts c) = None" "faults c (Suc (stmts c)) = None"
    and b: "bind mid = Inr m" "bind_opt_int year = Inr y" "bind_opt_int runtime = Inr rt"
      "bind plot = Inr p" "bind box = Inr bx"
    and f: "find (movie_where m title) (movies (pending c)) = None"
  shows "upsert_movie c mid title year runtime plot box =
    (c\<lparr>pending := (pending c)\<lparr>movies := movies (pending c) @
          [new_movie (fresh_id (map m_id (movies (pending c)))) m title y rt p bx]\<rparr>,
       stmts := Suc (Suc (stmts c))\<rparr>, Inr (fresh_id (map m_id (movies (pending c)))))"
proof -
  have s1: "sql_select_movie_id mid title (pending c) = Inr (pending c, None)"
    using b f by (simp add: sql_select_movie_id_def on_ok_def)
  let ?c1 = "c\<lparr>stmts := Suc (stmts c)\<rparr>"
  have e1: "execute c (sql_select_movie_id mid title) = (?c1, Inr None)"
    using execute_ok [of c "sql_select_movie_id mid title"] nf s1 by simp
  let ?i = "fresh_id (map m_id (movies (pending c)))"
  let ?t = "(pending c)\<lparr>movies := movies (pending c) @ [new_movie ?i m title y rt p bx]\<rparr>"
  have s2: "sql_insert_movie mid title year runtime plot box (pending ?c1) = Inr (?t, ?i)"
    using b by (simp add: sql_insert_movie_def on_ok_def Let_def)
  have e2: "execute ?c1 (sql_insert_movie mid title year runtime plot box) =
      (c\<lparr>pending := ?t, stmts := Suc (Suc (stmts c))\<rparr>, Inr ?i)"
    using execute_ok [of ?c1 "sql_insert_movie mid title year runtime plot box" ?t ?i] nf s2
    by simp
  show ?thesis
    by (simp add: upsert_movie_def e1 e2)
qed

lemma foldr_max_ge: "x \<in> set ids \<Longrightarrow> x \<le> foldr max ids (0::nat)"
  by (induction ids) auto

lemma fresh_id_fresh: "fresh_id ids \<notin> set ids"
  using foldr_max_ge [of "fresh_id ids" ids] by (auto simp: fresh_id_def)

lemma find_filter:
  "find P xs = (case filter P xs of [] \<Rightarrow> None | x # ys \<Rightarrow> Some x)"
  by (induction xs) auto

lemma movie_where_set_mutable [simp]:
  "movie_where m title (set_mutable y rt p b r) = movie_where m title r"
  by (simp add: movie_where_def set_mutable_def)

lemma filter_where_update:
  "filter (movie_where m title) (map (\<lambda>x. if m_id x = i then set_mutable y rt p b x else x) rows) =
   map (\<lambda>x. if m_id x = i then set_mutable y rt p b x else x) (filter (movie_where m title) rows)"
  by (induction rows) auto

lemma update_only_row:
  assumes "distinct (map m_id rows)" and "r \<in> set rows"
  shows "map (\<lambda>x. if m_id x = m_id r then f x else x) rows = map (\<lambda>x. if x = r then f r else x) rows"
proof (rule map_cong [OF refl])
  fix x assume "x \<in> set rows"
  with assms have "m_id x = m_id r \<longleftrightarrow> x = r"
    by (meson distinct_map inj_on_eq_iff)
  then show "(if m_id x = m_id r then f x else x) = (if x = r then f r else x)" by auto
qed


lemma runs_clean_4:
  assumes "runs_clean c 4"
  shows "faults c (stmts c) = None" "faults c (Suc (stmts c)) = None"
    "faults c (Suc (Suc (stmts c))) = None" "faults c (Suc (Suc (Suc (stmts c)))) = None"
  using assms [unfolded runs_clean_def, rule_format, of 0]
    assms [unfolded runs_clean_def, rule_format, of 1]
    assms [unfolded runs_clean_def, rule_format, of 2]
    assms [unfolded runs_clean_def, rule_format, of 3]
  by (simp_all add: numeral_3_eq_3)

lemma upsert_movie_again:
  assumes nf: "faults c (stmts c) = None" "faults c (Suc (stmts c)) = None"
    and b: "bind mid = Inr m" "bind_opt_int year = Inr y" "bind_opt_int runtime = Inr rt"
      "bind plot = Inr p" "bind box = Inr bx"
    and one: "filter (movie_where m title) (movies (pending c)) = [r]"
  shows "snd (upsert_movie c mid title year runtime plot box) = Inr (m_id r) \<and>
    filter (movie_where m title) (movies (pending (fst (upsert_movie c mid title year runtime plot box))))
      = [set_mutable y rt p bx r]"
proof -
  have f: "find (movie_where m title) (movies (pending c)) = Some r"
    by (simp add: find_filter one)
  show ?thesis
    by (simp add: upsert_movie_found [OF nf b f] filter_where_update one)
qed

text \<open>
  C1, as stated, fails. In a table where one row has the title and another row the identity
  (two earlier calls produce it), two calls with that identity and title update the first
  match twice: two rows match afterwards, and the row with the identity keeps its old
  runtime.
\<close>

theorem upsert_movie_two_matches:
  "movies (pending (fst (upsert_movie
      (fst (upsert_movie two_rows_conn (JStr ''b'') ''T'' None (Some 100) JNull JNull))
      (JStr ''b'') ''T'' None (Some 120) JNull JNull))) =
     [new_movie 1 (SqlText ''a'') ''T'' None (Some 120) SqlNull SqlNull,
      new_movie 2 (SqlText ''b'') ''U'' None None SqlNull SqlNull] \<and>
   length (filter (movie_where (SqlText ''b'') ''T'')
     (movies (pending (fst (upsert_movie
      (fst (upsert_movie two_rows_conn (JStr ''b'') ''T'' None (Some 100) JNull JNull))
      (JStr ''b'') ''T'' None (Some 120) JNull JNull))))) = 2 \<and>
   distinct (map m_id (movies (pending two_rows_conn))) \<and>
   length (filter (movie_where (SqlText ''b'') ''T'') (movies (pending two_rows_conn))) = 2 \<and>
   movies (pending (fst (upsert_movie
      (fst (upsert_movie fresh_conn (JStr ''a'') ''T'' None None JNull JNull))
      (JStr ''b'') ''U'' None None JNull JNull))) = movies (pending two_rows_conn)"
  by (simp add: two_rows_conn_def fresh_conn_def empty_tables_def upsert_movie_def execute_def
      sql_select_movie_id_def sql_update_movie_def sql_insert_movie_def on_ok_def bind_def
      bind_opt_int_def bind_int_def int64_def movie_where_def sql_eq_def new_movie_def
      set_mutable_def fresh_id_def)

text \<open>
  C1, amended. With parameters the driver accepts, no fault of the environment and distinct
  row ids: if a row matches the identity or the title, the first such row alone has its
  year, runtime, plot and box office overwritten and its id is returned; if none matches, a
  row with a fresh id is appended and that id is returned. If at most one row matched to
  begin with, then after a second call with the same identity and title and another runtime
  exactly one row matches, its runtime is that of the second call, and both calls returned
  its id.
\<close>

theorem upsert_movie_contract:
  assumes b: "bind movie_unique_id = Inr m" "bind_opt_int year = Inr y"
      "bind_opt_int runtime = Inr rt" "bind plot = Inr p" "bind box_office = Inr bx"
    and b2: "bind_opt_int runtime2 = Inr rt2"
    and clean: "runs_clean c 4"
    and pk: "distinct (map m_id (movies (pending c)))"
  shows
    "(\<forall>r. find (movie_where m title) (movies (pending c)) = Some r \<longrightarrow>
        snd (upsert_movie c movie_unique_id title year runtime plot box_office) = Inr (m_id r) \<and>
        movies (pending (fst (upsert_movie c movie_unique_id title year runtime plot box_office))) =
          map (\<lambda>x. if x = r then set_mutable y rt p bx r else x) (movies (pending c))) \<and>
     (find (movie_where m title) (movies (pending c)) = None \<longrightarrow>
        snd (upsert_movie c movie_unique_id title year runtime plot box_office)
          = Inr (fresh_id (map m_id (movies (pending c)))) \<and>
        fresh_id (map m_id (movies (pending c))) \<notin> set (map m_id (movies (pending c))) \<and>
        movies (pending (fst (upsert_movie c movie_unique_id title year runtime plot box_office))) =
          movies (pending c) @
            [new_movie (fresh_id (map m_id (movies (pending c)))) m title y rt p bx]) \<and>
     (length (filter (movie_where m title) (movies (pending c))) \<le> 1 \<longrightarrow>
        (\<exists>r. filter (movie_where m title)
               (movies (pending (fst (upsert_movie
                  (fst (upsert_movie c movie_unique_id title year runtime plot box_office))
                  movie_unique_id title year runtime2 plot box_office)))) = [r] \<and>
             m_runtime_minutes r = rt2 \<and>
             snd (upsert_movie c movie_unique_id title year runtime plot box_office) = Inr (m_id r) \<and>
             snd (upsert_movie
                  (fst (upsert_movie c movie_unique_id title year runtime plot box_office))
                  movie_unique_id title year runtime2 plot box_office) = Inr (m_id r)))"
proof (intro conjI allI impI)
  note nf = runs_clean_4 [OF clean]
  let ?rows = "movies (pending c)"
  let ?U = "upsert_movie c movie_unique_id title year runtime plot box_office"
  {
    fix r assume f: "find (movie_where m title) ?rows = Some r"
    note eq = upsert_movie_found [OF nf(1,2) b f]
    show "snd ?U = Inr (m_id r)" by (simp add: eq)
    from f have "r \<in> set ?rows" by (auto simp: find_Some_iff)
    from update_only_row [OF pk this]
    show "movies (pending (fst ?U)) = map (\<lambda>x. if x = r then set_mutable y rt p bx r else x) ?rows"
      by (simp add: eq)
  }
  {
    assume f: "find (movie_where m title) ?rows = None"
    note eq = upsert_movie_new [OF nf(1,2) b f]
    show "snd ?U = Inr (fresh_id (map m_id ?rows))" by (simp add: eq)
    show "fresh_id (map m_id ?rows) \<notin> set (map m_id ?rows)" by (rule fresh_id_fresh)
    show "movies (pending (fst ?U)) = ?rows @ [new_movie (fresh_id (map m_id ?rows)) m title y rt p bx]"
      by (simp add: eq)
  }
  {
    assume le: "length (filter (movie_where m title) ?rows) \<le> 1"
    have first: "\<exists>r1. snd ?U = Inr (m_id r1) \<and> filter (movie_where m title) (movies (pending (fst ?U))) = [r1]
        \<and> faults (fst ?U) (stmts (fst ?U)) = None \<and> faults (fst ?U) (Suc (stmts (fst ?U))) = None"
    proof (cases "filter (movie_where m title) ?rows")
      case Nil
      then have f: "find (movie_where m title) ?rows = None" by (simp add: find_filter)
      note eq = upsert_movie_new [OF nf(1,2) b f]
      have "movie_where m title (new_movie (fresh_id (map m_id ?rows)) m title y rt p bx)"
        by (simp add: movie_where_def new_movie_def)
      then show ?thesis using Nil nf by (simp add: eq new_movie_def)
    next
      case (Cons r rest)
      with le have one: "filter (movie_where m title) ?rows = [r]" by simp
      from upsert_movie_again [OF nf(1,2) b one]
      have "snd ?U = Inr (m_id (set_mutable y rt p bx r))"
        "filter (movie_where m title) (movies (pending (fst ?U))) = [set_mutable y rt p bx r]"
        by (simp_all add: set_mutable_def)
      moreover have "find (movie_where m title) ?rows = Some r" by (simp add: find_filter one)
      note eq = upsert_movie_found [OF nf(1,2) b this]
      have "faults (fst ?U) (stmts (fst ?U)) = None \<and> faults (fst ?U) (Suc (stmts (fst ?U))) = None"
        using nf by (simp add: eq)
      ultimately show ?thesis by blast
    qed
    then obtain r1 where r1: "snd ?U = Inr (m_id r1)"
      "filter (movie_where m title) (movies (pending (fst ?U))) = [r1]"
      "faults (fst ?U) (stmts (fst ?U)) = None" "faults (fst ?U) (Suc (stmts (fst ?U))) = None"
      by blast
    from upsert_movie_again [OF r1(3,4) b(1,2) b2 b(4,5) r1(2)]
    have "filter (movie_where m title)
               (movies (pending (fst (upsert_movie (fst ?U) movie_unique_id title year runtime2 plot box_office))))
            = [set_mutable y rt2 p bx r1]"
      and "snd (upsert_movie (fst ?U) movie_unique_id title year runtime2 plot box_office) = Inr (m_id r1)"
      by simp_all
    moreover have "m_runtime_minutes (set_mutable y rt2 p bx r1) = rt2"
      "m_id (set_mutable y rt2 p bx r1) = m_id r1"
      by (simp_all add: set_mutable_def)
    ultimately show "\<exists>r. filter (movie_where m title)
               (movies (pending (fst (upsert_movie (fst ?U) movie_unique_id title year runtime2 plot box_office)))) = [r] \<and>
             m_runtime_minutes r = rt2 \<and>
             snd ?U = Inr (m_id r) \<and>
             snd (upsert_movie (fst ?U) movie_unique_id title year runtime2 plot box_office) = Inr (m_id r)"
      using r1(1) by simp
  }
qed

theorem upsert_movie_contract_witness:
  "snd (upsert_movie fresh_conn (JStr ''tt1'') ''Heat'' (Some 1995) (Some 170) JNull JNull) = Inr 1 \<and>
   movies (pending (fst (upsert_movie fresh_conn (JStr ''tt1'') ''Heat'' (Some 1995) (Some 170) JNull JNull)))
     = [new_movie 1 (SqlText ''tt1'') ''Heat'' (Some 1995) (Some 170) SqlNull SqlNull] \<and>
   (\<exists>r. filter (movie_where (SqlText ''tt1'') ''Heat'')
          (movies (pending (fst (upsert_movie
             (fst (upsert_movie fresh_conn (JStr ''tt1'') ''Heat'' (Some 1995) (Some 170) JNull JNull))
             (JStr ''tt1'') ''Heat'' (Some 1995) (Some 171) JNull JNull)))) = [r] \<and>
        m_runtime_minutes r = Some 171 \<and>
        snd (upsert_movie
             (fst (upsert_movie fresh_conn (JStr ''tt1'') ''Heat'' (Some 1995) (Some 170) JNull JNull))
             (JStr ''tt1'') ''Heat'' (Some 1995) (Some 171) JNull JNull) = Inr (m_id r))"
proof -
  have b: "bind (JStr ''tt1'') = Inr (SqlText ''tt1'')" "bind_opt_int (Some 1995) = Inr (Some 1995)"
    "bind_opt_int (Some 170) = Inr (Some 170)" "bind JNull = Inr SqlNull" "bind JNull = Inr SqlNull"
    by (simp_all add: bind_def bind_opt_int_def bind_int_def int64_def on_ok_def)
  have b2: "bind_opt_int (Some 171) = Inr (Some 171)"
    by (simp add: bind_opt_int_def bind_int_def int64_def on_ok_def)
  have clean: "runs_clean fresh_conn 4" by (simp add: runs_clean_def fresh_conn_def)
  have pk: "distinct (map m_id (movies (pending fresh_conn)))"
    by (simp add: fresh_conn_def empty_tables_def)
  have none: "find (movie_where (SqlText ''tt1'') ''Heat'') (movies (pending fresh_conn)) = None"
    "length (filter (movie_where (SqlText ''tt1'') ''Heat'') (movies (pending fresh_conn))) \<le> 1"
    "movies (pending fresh_conn) = []"
    by (simp_all add: fresh_conn_def empty_tables_def)
  from upsert_movie_contract [OF b b2 clean pk, of "''Heat''"] none
  show ?thesis by (simp add: fresh_id_def) blast
qed











subsection \<open>Ratings loader\<close>
















subsection \<open>Pipeline driver\<close>

lemma execute_committed [simp]: "committed (fst (execute c stmt)) = committed c"
  by (simp add: execute_def split: option.splits sum.splits prod.splits)

lemma upsert_movie_committed [simp]:
  "committed (fst (upsert_movie c mid title y rt p b)) = committed c"
proof -
  obtain c1 r1 where e1: "execute c (sql_select_movie_id mid title) = (c1, r1)"
    by (cases "execute c (sql_select_movie_id mid title)")
  have k1: "committed c1 = committed c"
    using execute_committed [of c "sql_select_movie_id mid title"] by (simp add: e1)
  show ?thesis
  proof (cases r1)
    case (Inl e)
    then show ?thesis by (simp add: upsert_movie_def e1 k1)
  next
    case (Inr found)
    show ?thesis
    proof (cases found)
      case None
      with Inr show ?thesis by (simp add: upsert_movie_def e1 k1)
    next
      case (Some i)
      obtain c2 r2 where e2: "execute c1 (sql_update_movie y rt p b i) = (c2, r2)"
        by (cases "execute c1 (sql_update_movie y rt p b i)")
      have "committed c2 = committed c1"
        using execute_committed [of c1 "sql_update_movie y rt p b i"] by (simp add: e2)
      with Inr Some show ?thesis
        by (cases r2) (simp_all add: upsert_movie_def e1 e2 k1)
    qed
  qed
qed

lemma get_or_create_genre_committed [simp]:
  "committed (fst (get_or_create_genre c name)) = committed c"
proof -
  obtain c1 r1 where e1: "execute c (sql_select_genre_id name) = (c1, r1)"
    by (cases "execute c (sql_select_genre_id name)")
  have k1: "committed c1 = committed c"
    using execute_committed [of c "sql_select_genre_id name"] by (simp add: e1)
  show ?thesis
    by (cases r1; simp add: get_or_create_genre_def e1 k1 split: option.splits)
qed

lemma get_or_create_director_committed [simp]:
  "committed (fst (get_or_create_director c name)) = committed c"
proof -
  obtain c1 r1 where e1: "execute c (sql_select_director_id name) = (c1, r1)"
    by (cases "execute c (sql_select_director_id name)")
  have k1: "committed c1 = committed c"
    using execute_committed [of c "sql_select_director_id name"] by (simp add: e1)
  show ?thesis
    by (cases r1; simp add: get_or_create_director_def e1 k1 split: option.splits)
qed

lemma link_movie_genre_committed [simp]:
  "committed (fst (link_movie_genre c m g)) = committed c"
proof -
  obtain c1 r1 where e1: "execute c (sql_insert_movie_genre m g) = (c1, r1)"
    by (cases "execute c (sql_insert_movie_genre m g)")
  have k1: "committed c1 = committed c"
    using execute_committed [of c "sql_insert_movie_genre m g"] by (simp add: e1)
  show ?thesis
    by (simp add: link_movie_genre_def e1 k1 split: sum.splits py_error.splits db_error.splits)
qed

lemma link_movie_director_committed [simp]:
  "committed (fst (link_movie_director c m d)) = committed c"
proof -
  obtain c1 r1 where e1: "execute c (sql_insert_movie_director m d) = (c1, r1)"
    by (cases "execute c (sql_insert_movie_director m d)")
  have k1: "committed c1 = committed c"
    using execute_committed [of c "sql_insert_movie_director m d"] by (simp add: e1)
  show ?thesis
    by (simp add: link_movie_director_def e1 k1 split: sum.splits py_error.splits db_error.splits)
qed

lemma link_genres_committed [simp]:
  "committed (fst (link_genres c i gs)) = committed c"
proof (induction gs arbitrary: c)
  case Nil
  then show ?case by simp
next
  case (Cons g gs)
  obtain c1 r1 where e1: "get_or_create_genre c g = (c1, r1)"
    by (cases "get_or_create_genre c g")
  have k1: "committed c1 = committed c"
    using get_or_create_genre_committed [of c g] by (simp add: e1)
  show ?case
  proof (cases r1)
    case (Inl e)
    then show ?thesis by (simp add: e1 k1)
  next
    case (Inr gid)
    obtain c2 r2 where e2: "link_movie_genre c1 i gid = (c2, r2)"
      by (cases "link_movie_genre c1 i gid")
    have k2: "committed c2 = committed c"
      using link_movie_genre_committed [of c1 i gid] by (simp add: e2 k1)
    from Inr show ?thesis
      by (cases r2) (simp_all add: e1 e2 k2 Cons.IH)
  qed
qed

lemma link_directors_committed [simp]:
  "committed (fst (link_directors c i ds)) = committed c"
proof (induction ds arbitrary: c)
  case Nil
  then show ?case by simp
next
  case (Cons d ds)
  obtain c1 r1 where e1: "get_or_create_director c d = (c1, r1)"
    by (cases "get_or_create_director c d")
  have k1: "committed c1 = committed c"
    using get_or_create_director_committed [of c d] by (simp add: e1)
  show ?case
  proof (cases r1)
    case (Inl e)
    then show ?thesis by (simp add: e1 k1)
  next
    case (Inr did)
    obtain c2 r2 where e2: "link_movie_director c1 i did = (c2, r2)"
      by (cases "link_movie_director c1 i did")
    have k2: "committed c2 = committed c"
      using link_movie_director_committed [of c1 i did] by (simp add: e2 k1)
    from Inr show ?thesis
      by (cases r2) (simp_all add: e1 e2 k2 Cons.IH)
  qed
qed

lemma store_movie_committed [simp]:
  "committed (fst (store_movie isna c row title year md)) = committed c"
proof -
  let ?mid = "if truthy (md_imdb_id md) then md_imdb_id md else JStr (''ML_'' @ str_int (in_id row))"
  obtain c1 r1 where e1:
    "upsert_movie c ?mid title year (md_runtime md) (md_plot md) (md_box_office md) = (c1, r1)"
    by (cases "upsert_movie c ?mid title year (md_runtime md) (md_plot md) (md_box_office md)")
  have k1: "committed c1 = committed c"
    using upsert_movie_committed [of c ?mid title year "md_runtime md" "md_plot md" "md_box_office md"]
    by (simp add: e1)
  show ?thesis
  proof (cases r1)
    case (Inl e)
    then show ?thesis using e1 k1 by (simp add: store_movie_def Let_def)
  next
    case (Inr i)
    let ?ml = "case in_genres row of None \<Rightarrow> [] | Some s \<Rightarrow> parse_genres s"
    let ?og = "if truthy (md_genres md) then parse_genres_value isna (md_genres md) else Inr []"
    show ?thesis
    proof (cases ?og)
      case (Inl e)
      with Inr show ?thesis using e1 k1 by (simp add: store_movie_def Let_def)
    next
      case og: (Inr ogl)
      obtain c2 r2 where e2: "link_genres c1 i (combined_genres ?ml ogl) = (c2, r2)"
        by (cases "link_genres c1 i (combined_genres ?ml ogl)")
      have k2: "committed c2 = committed c"
        using link_genres_committed [of c1 i "combined_genres ?ml ogl"] by (simp add: e2 k1)
      show ?thesis
      proof (cases r2)
        case (Inl e)
        with Inr og show ?thesis using e1 e2 k2 by (simp add: store_movie_def Let_def)
      next
        case r2ok: (Inr u)
        show ?thesis
        proof (cases "director_names (md_director md)")
          case (Inl e)
          with Inr og r2ok show ?thesis using e1 e2 k2 by (simp add: store_movie_def Let_def)
        next
          case dn: (Inr names)
          have "committed (fst (link_directors c2 i names)) = committed c"
            by (simp add: k2)
          with Inr og r2ok dn show ?thesis using e1 e2 by (simp add: store_movie_def Let_def)
        qed
      qed
    qed
  qed
qed

lemma process_movie_committed [simp]:
  "committed (fst (snd (process_movie isna w c row))) = committed c"
  by (simp add: process_movie_def Let_def split: option.splits prod.splits sum.splits)

lemma movie_loop_committed:
  "committed (fst (snd (movie_loop isna w c rows))) = committed c"
proof (induction rows arbitrary: w c)
  case Nil
  then show ?case by simp
next
  case (Cons row rows)
  obtain w1 c1 r1 where e1: "process_movie isna w c row = (w1, c1, r1)"
    by (cases "process_movie isna w c row")
  have k1: "committed c1 = committed c"
    using process_movie_committed [of isna w c row] by (simp add: e1)
  show ?case
    by (cases r1) (simp_all add: e1 k1 Cons.IH)
qed

lemma load_ratings_committed:
  "committed (fst (load_ratings c rows)) = committed c"
proof (induction rows arbitrary: c)
  case Nil
  then show ?case by simp
next
  case (Cons row rows)
  let ?s = "sql_replace_rating (in_userId row) (in_movieId row) (in_rating row) (in_timestamp row)"
  obtain c1 r1 where e1: "execute c ?s = (c1, r1)"
    by (cases "execute c ?s")
  have k1: "committed c1 = committed c"
    using execute_committed [of c ?s] by (simp add: e1)
  show ?case
    by (cases r1) (simp_all add: e1 k1 Cons.IH)
qed

lemma commit_committed:
  "snd (commit c) = Inl e \<Longrightarrow> committed (fst (commit c)) = committed c"
  "snd (commit c) = Inr u \<Longrightarrow> committed (fst (commit c)) = pending c"
  by (auto simp: commit_def split: option.splits)

text \<open>
  C9. Neither the ratings loader nor the movie loop changes the committed state. An error
  raised in the movie loop is the result of the run; whenever the run ends in an error the
  committed state is the one it started from; and when the run succeeds the committed state
  is the pending state the loop left, committed once after the loop.
\<close>

theorem main_commits_at_end:
  "committed (fst (load_ratings c ratings_df)) = committed c \<and>
   committed (fst (snd (movie_loop isna w c movies_df))) = committed c \<and>
   (snd (load_ratings (connect engine) ratings_df) = Inr () \<and>
    snd (snd (movie_loop isna w (fst (load_ratings (connect engine) ratings_df)) movies_df)) = Inl e \<longrightarrow>
      snd (snd (main isna w engine movies_df ratings_df)) = Inl e) \<and>
   (snd (snd (main isna w engine movies_df ratings_df)) = Inl e \<longrightarrow>
      committed (fst (snd (main isna w engine movies_df ratings_df))) = committed engine) \<and>
   (snd (snd (main isna w engine movies_df ratings_df)) = Inr () \<longrightarrow>
      committed (fst (snd (main isna w engine movies_df ratings_df))) =
        pending (fst (snd (movie_loop isna w (fst (load_ratings (connect engine) ratings_df)) movies_df))))"
proof -
  obtain c1 r1 where e1: "load_ratings (connect engine) ratings_df = (c1, r1)"
    by (cases "load_ratings (connect engine) ratings_df")
  have k0: "committed (connect engine) = committed engine"
    by (simp add: connect_def)
  have k1: "committed c1 = committed engine"
    using load_ratings_committed [of "connect engine" ratings_df] by (simp add: e1 k0)
  obtain w2 c2 r2 where e2: "movie_loop isna w c1 movies_df = (w2, c2, r2)"
    by (cases "movie_loop isna w c1 movies_df")
  have k2: "committed c2 = committed engine"
    using movie_loop_committed [of isna w c1 movies_df] by (simp add: e2 k1)
  obtain c3 r3 where e3: "commit c2 = (c3, r3)"
    by (cases "commit c2")
  have k3: "r3 = Inl e \<Longrightarrow> committed c3 = committed engine" for e
    using commit_committed(1) [of c2 e] by (simp add: e3 k2)
  have k3': "r3 = Inr () \<Longrightarrow> committed c3 = pending c2"
    using commit_committed(2) [of c2 "()"] by (simp add: e3)
  have a: "snd (load_ratings (connect engine) ratings_df) = Inr () \<and>
    snd (snd (movie_loop isna w (fst (load_ratings (connect engine) ratings_df)) movies_df)) = Inl e \<longrightarrow>
      snd (snd (main isna w engine movies_df ratings_df)) = Inl e"
    by (simp add: main_def e1 e2 split: sum.splits)
  have b: "snd (snd (main isna w engine movies_df ratings_df)) = Inl e \<longrightarrow>
      committed (fst (snd (main isna w engine movies_df ratings_df))) = committed engine"
    using k1 k2 k3 by (cases r1; cases r2; cases r3) (simp_all add: main_def e1 e2 e3 close_def)
  have c: "snd (snd (main isna w engine movies_df ratings_df)) = Inr () \<longrightarrow>
      committed (fst (snd (main isna w engine movies_df ratings_df))) =
        pending (fst (snd (movie_loop isna w (fst (load_ratings (connect engine) ratings_df)) movies_df)))"
    using k3' by (cases r1; cases r2; cases r3) (simp_all add: main_def e1 e2 e3 close_def)
  from a b c show ?thesis
    by (simp add: load_ratings_committed movie_loop_committed)
qed

theorem main_commits_at_end_witness:
  "snd (snd (main no_isna heat_world (failing_conn 5) [heat_row] [])) = Inl (DBError OperationalError) \<and>
   committed (fst (snd (main no_isna heat_world (failing_conn 5) [heat_row] []))) = empty_tables \<and>
   map m_title (movies (pending (fst (snd (movie_loop no_isna heat_world
      (fst (load_ratings (connect (failing_conn 5)) [])) [heat_row]))))) = [''Heat'']"
proof -
  have l: "snd (load_ratings (connect (failing_conn 5)) []) = Inr ()" by simp
  have e: "snd (snd (movie_loop no_isna heat_world (fst (load_ratings (connect (failing_conn 5)) []))
      [heat_row])) = Inl (DBError OperationalError)"
    by code_simp
  have p: "map m_title (movies (pending (fst (snd (movie_loop no_isna heat_world
      (fst (load_ratings (connect (failing_conn 5)) [])) [heat_row]))))) = [''Heat'']"
    by code_simp
  have c: "committed (failing_conn 5) = empty_tables"
    by (simp add: failing_conn_def fresh_conn_def)
  from main_commits_at_end [of "failing_conn 5" "[]" no_isna heat_world "[heat_row]" "failing_conn 5"
      "DBError OperationalError"] l e c
  have "snd (snd (main no_isna heat_world (failing_conn 5) [heat_row] [])) = Inl (DBError OperationalError) \<and>
   committed (fst (snd (main no_isna heat_world (failing_conn 5) [heat_row] []))) = empty_tables"
    by simp
  with p show ?thesis by simp
qed

end
